theory Spec2Isabelle
  imports Complex_Main "HOL-Library.Multiset"
begin

section \<open>Data model\<close>

text \<open>
  The functions verified here are those of \<^verbatim>\<open>scoring/calculate.ts\<close> (productivity points,
  efficiency, trend) and \<^verbatim>\<open>planning/assign.ts\<close> (day assignment, priority score).

  JavaScript numbers are modelled by exact arithmetic: integer-valued fields are \<^typ>\<open>int\<close>,
  computed numbers are \<^typ>\<open>real\<close>, and \<^verbatim>\<open>/\<close>, \<^verbatim>\<open>*\<close>, \<^verbatim>\<open>+\<close> are the exact operations.
  The rounding error of IEEE doubles, \<^verbatim>\<open>NaN\<close> and the infinities are outside this model.
\<close>

datatype Difficulty = TRIVIAL | EASY | MEDIUM | HARD | EXTREME

text \<open>
  Modelled from the spec: the type \<^verbatim>\<open>Task\<close> is imported from the package
  \<^verbatim>\<open>@stridetime/db\<close>, whose declaration is not among the sources. The record holds the
  columns the verified functions read or write, with the types the spec's data model gives:
  progress and the minute counts are integers, an optional column is an \<^typ>\<open>'a option\<close>
  (\<^term>\<open>None\<close> is SQL \<^verbatim>\<open>NULL\<close>). A timestamp column (\<^verbatim>\<open>due_date\<close>, \<^verbatim>\<open>updated_at\<close>) is
  held as the number of milliseconds since the epoch that \<^verbatim>\<open>new Date(column).getTime()\<close>
  reads from it; \<^verbatim>\<open>planned_for_date\<close> is a \<^verbatim>\<open>YYYY-MM-DD\<close> string.
\<close>

record Task =
  task_id :: string
  status :: string
  planned_for_date :: "string option"
  difficulty :: Difficulty
  progress :: int
  estimated_minutes :: "int option"
  actual_minutes :: int
  max_minutes :: "int option"
  due_date :: "int option"
  updated_at :: "int option"

record TaskScore =
  basePoints :: real
  efficiencyBonus :: real
  focusBonus :: real
  totalPoints :: int

record ScoringContext =
  taskTypesWorkedToday :: int

section \<open>JavaScript primitives\<close>

text \<open>
  \<^verbatim>\<open>Math.round(x)\<close>: the nearest integer, a tie going towards \<open>+\<infinity>\<close>. The result is an
  integer and is held as one; it is coerced back where the source goes on computing with it.
\<close>

definition Math_round :: "real \<Rightarrow> int" where
  "Math_round x = \<lfloor>x + 1 / 2\<rfloor>"

definition Math_ceil :: "real \<Rightarrow> int" where
  "Math_ceil x = \<lceil>x\<rceil>"

text \<open>
  Truthiness of a nullable number, as \<^verbatim>\<open>if (x)\<close>, \<^verbatim>\<open>!x\<close> and \<^verbatim>\<open>x && ...\<close> test it:
  \<^verbatim>\<open>null\<close> and \<^verbatim>\<open>0\<close> are falsy.
\<close>

fun truthy :: "int option \<Rightarrow> bool" where
  "truthy None = False"
| "truthy (Some n) = (n \<noteq> 0)"

text \<open>The numeric value of a nullable number in arithmetic and comparisons: \<^verbatim>\<open>null\<close> is \<open>0\<close>.\<close>

fun to_number :: "int option \<Rightarrow> int" where
  "to_number None = 0"
| "to_number (Some n) = n"

text \<open>
  The decimal digits a template literal \<^verbatim>\<open>${n}\<close> writes for an integer-valued number.
\<close>

fun nat_to_string :: "nat \<Rightarrow> string" where
  "nat_to_string n =
     (if n < 10 then [''0123456789'' ! n]
      else nat_to_string (n div 10) @ [''0123456789'' ! (n mod 10)])"

declare nat_to_string.simps [simp del]

definition number_to_string :: "int \<Rightarrow> string" where
  "number_to_string i =
     (if i < 0 then ''-'' @ nat_to_string (nat (- i)) else nat_to_string (nat i))"

text \<open>The em dash U+2014 of the two long messages, as its three UTF-8 bytes.\<close>

definition em_dash :: string where
  "em_dash = [CHR 0xE2, CHR 0x80, CHR 0x94]"

section \<open>Scoring (\<^verbatim>\<open>scoring/calculate.ts\<close>)\<close>

fun DIFFICULTY_MULTIPLIERS :: "Difficulty \<Rightarrow> real" where
  "DIFFICULTY_MULTIPLIERS TRIVIAL = 1"
| "DIFFICULTY_MULTIPLIERS EASY = 2"
| "DIFFICULTY_MULTIPLIERS MEDIUM = 3"
| "DIFFICULTY_MULTIPLIERS HARD = 5"
| "DIFFICULTY_MULTIPLIERS EXTREME = 8"

text \<open>
  The condition of the efficiency bonus,
  \<^verbatim>\<open>task.progress === 100 && task.estimated_minutes && task.actual_minutes < task.estimated_minutes\<close>.
\<close>

definition under_estimate :: "Task \<Rightarrow> bool" where
  "under_estimate task =
     (progress task = 100 \<and> truthy (estimated_minutes task) \<and>
      actual_minutes task < to_number (estimated_minutes task))"

text \<open>
  The three quantities \<^verbatim>\<open>calculateTaskScore\<close> computes before it rounds: its local variables
  \<^verbatim>\<open>basePoints\<close>, \<^verbatim>\<open>efficiencyBonus\<close> and \<^verbatim>\<open>focusBonus\<close>.
\<close>

definition raw_basePoints :: "Task \<Rightarrow> real" where
  "raw_basePoints task =
     DIFFICULTY_MULTIPLIERS (difficulty task) * (real_of_int (progress task) / 100)"

definition raw_efficiencyBonus :: "Task \<Rightarrow> real" where
  "raw_efficiencyBonus task =
     (if under_estimate task then raw_basePoints task * 0.2 else 0)"

definition raw_focusBonus :: "Task \<Rightarrow> ScoringContext \<Rightarrow> real" where
  "raw_focusBonus task context =
     (if taskTypesWorkedToday context \<ge> 3 then raw_basePoints task * 0.1 else 0)"

definition calculateTaskScore :: "Task \<Rightarrow> ScoringContext \<Rightarrow> TaskScore" where
  "calculateTaskScore task context =
     (let basePoints = raw_basePoints task;
          efficiencyBonus = raw_efficiencyBonus task;
          focusBonus = raw_focusBonus task context;
          totalPoints = Math_round (basePoints + efficiencyBonus + focusBonus)
      in \<lparr> basePoints = real_of_int (Math_round (basePoints * 10)) / 10,
           efficiencyBonus = real_of_int (Math_round (efficiencyBonus * 10)) / 10,
           focusBonus = real_of_int (Math_round (focusBonus * 10)) / 10,
           totalPoints = totalPoints \<rparr>)"

definition calculateEfficiency :: "Task \<Rightarrow> real" where
  "calculateEfficiency task =
     (if \<not> truthy (estimated_minutes task) \<or> actual_minutes task = 0 then 1
      else real_of_int (to_number (estimated_minutes task)) / real_of_int (actual_minutes task))"

definition calculateDailyScore :: "Task list \<Rightarrow> ScoringContext \<Rightarrow> int" where
  "calculateDailyScore completedTasks context =
     foldl (\<lambda>total task. total + totalPoints (calculateTaskScore task context)) 0 completedTasks"

definition calculateTrend :: "real \<Rightarrow> real \<Rightarrow> real" where
  "calculateTrend todayScore averageScore =
     (if averageScore = 0 then 1 else todayScore / averageScore)"

definition getTrendLabel :: "real \<Rightarrow> string" where
  "getTrendLabel trend =
     (let percentage = Math_round ((trend - 1) * 100) in
      if percentage > 20 then
        number_to_string percentage @ ''% above your average'' @ em_dash @ ''great focus today!''
      else if percentage > 0 then number_to_string percentage @ ''% above your average''
      else if percentage = 0 then ''Right on your average''
      else if percentage > - 20 then number_to_string \<bar>percentage\<bar> @ ''% below your average''
      else number_to_string \<bar>percentage\<bar> @ ''% below your average'' @ em_dash @ ''take it easy'')"

section \<open>Planning (\<^verbatim>\<open>planning/assign.ts\<close>)\<close>

text \<open>The milliseconds of one day, \<^verbatim>\<open>1000 * 60 * 60 * 24\<close>.\<close>

definition MS_PER_DAY :: int where
  "MS_PER_DAY = 1000 * 60 * 60 * 24"

text \<open>
  \<^verbatim>\<open>calculatePriority\<close> threads the variable \<^verbatim>\<open>score\<close> through four blocks; each \<open>let\<close> below
  is one block and rebinds \<open>score\<close>. \<open>today\<close> is \<^verbatim>\<open>today.getTime()\<close>.
\<close>

definition calculatePriority :: "Task \<Rightarrow> int \<Rightarrow> int" where
  "calculatePriority task today =
     (let score = 0;
          score =
            (case due_date task of
               None \<Rightarrow> score
             | Some dueDate \<Rightarrow>
                 (let daysUntilDue = Math_ceil (real_of_int (dueDate - today) / real_of_int MS_PER_DAY)
                  in if daysUntilDue \<le> 0 then score + 40
                     else if daysUntilDue = 1 then score + 35
                     else if daysUntilDue \<le> 7 then score + 25
                     else if daysUntilDue \<le> 30 then score + 10
                     else score));
          score =
            (if progress task \<ge> 80 then score + 30
             else if progress task \<ge> 50 then score + 15
             else score);
          score =
            (if truthy (max_minutes task) \<and> actual_minutes task \<noteq> 0 then
               (let timeRemaining = to_number (max_minutes task) - actual_minutes task;
                    percentRemaining =
                      real_of_int timeRemaining / real_of_int (to_number (max_minutes task))
                in if percentRemaining \<le> 0.2 then score + 20
                   else if percentRemaining \<le> 0.5 then score + 10
                   else score)
             else score);
          score =
            (case updated_at task of
               None \<Rightarrow> score
             | Some lastUpdated \<Rightarrow>
                 (let daysSinceUpdate =
                        Math_ceil (real_of_int (today - lastUpdated) / real_of_int MS_PER_DAY)
                  in if daysSinceUpdate \<ge> 7 then score + 10
                     else if daysSinceUpdate \<ge> 3 then score + 5
                     else score))
      in score)"

text \<open>
  The four blocks on their own, each as the amount it adds to \<^verbatim>\<open>score\<close>.
\<close>

definition due_band :: "Task \<Rightarrow> int \<Rightarrow> int" where
  "due_band task today =
     (case due_date task of
        None \<Rightarrow> 0
      | Some dueDate \<Rightarrow>
          (let daysUntilDue = Math_ceil (real_of_int (dueDate - today) / real_of_int MS_PER_DAY)
           in if daysUntilDue \<le> 0 then 40
              else if daysUntilDue = 1 then 35
              else if daysUntilDue \<le> 7 then 25
              else if daysUntilDue \<le> 30 then 10
              else 0))"

definition completion_band :: "Task \<Rightarrow> int" where
  "completion_band task =
     (if progress task \<ge> 80 then 30 else if progress task \<ge> 50 then 15 else 0)"

definition time_band :: "Task \<Rightarrow> int" where
  "time_band task =
     (if truthy (max_minutes task) \<and> actual_minutes task \<noteq> 0 then
        (let timeRemaining = to_number (max_minutes task) - actual_minutes task;
             percentRemaining =
               real_of_int timeRemaining / real_of_int (to_number (max_minutes task))
         in if percentRemaining \<le> 0.2 then 20
            else if percentRemaining \<le> 0.5 then 10
            else 0)
      else 0)"

definition neglect_band :: "Task \<Rightarrow> int \<Rightarrow> int" where
  "neglect_band task today =
     (case updated_at task of
        None \<Rightarrow> 0
      | Some lastUpdated \<Rightarrow>
          (let daysSinceUpdate =
                 Math_ceil (real_of_int (today - lastUpdated) / real_of_int MS_PER_DAY)
           in if daysSinceUpdate \<ge> 7 then 10
              else if daysSinceUpdate \<ge> 3 then 5
              else 0))"

text \<open>
  The \<^verbatim>\<open>tasks\<close> table is the list of its rows. \<^verbatim>\<open>UPDATE ... WHERE id = ?\<close> rewrites every row
  with that id, each right-hand side reading the row as it was; \<^verbatim>\<open>SELECT * ... WHERE id = ?\<close>
  returns the rows with that id in table order, and \<^verbatim>\<open>const [task] = ...\<close> takes the first,
  \<^verbatim>\<open>undefined\<close> (here \<^term>\<open>None\<close>) when there is none. The clock value \<^verbatim>\<open>now\<close> is a
  parameter. Each operation returns the new table and the row it hands back.
\<close>

definition select_by_id :: "Task list \<Rightarrow> string \<Rightarrow> Task option" where
  "select_by_id db taskId =
     (case filter (\<lambda>row. task_id row = taskId) db of [] \<Rightarrow> None | task # _ \<Rightarrow> Some task)"

text \<open>What the \<^verbatim>\<open>UPDATE\<close> of \<^verbatim>\<open>assignToDay\<close> does to one row of the table.\<close>

definition assign_row :: "int \<Rightarrow> string \<Rightarrow> string \<Rightarrow> Task \<Rightarrow> Task" where
  "assign_row now taskId date row =
     (if task_id row = taskId then
        row\<lparr> planned_for_date := Some date,
             status := (if status row = ''BACKLOG'' then ''PLANNED'' else status row),
             updated_at := Some now \<rparr>
      else row)"

definition assignToDay :: "int \<Rightarrow> Task list \<Rightarrow> string \<Rightarrow> string \<Rightarrow> Task list \<times> Task option" where
  "assignToDay now db taskId date =
     (let db' = map (assign_row now taskId date) db
      in (db', select_by_id db' taskId))"

text \<open>What the \<^verbatim>\<open>UPDATE\<close> of \<^verbatim>\<open>unassignTask\<close> does to one row of the table.\<close>

definition unassign_row :: "int \<Rightarrow> string \<Rightarrow> Task \<Rightarrow> Task" where
  "unassign_row now taskId row =
     (if task_id row = taskId then
        row\<lparr> planned_for_date := None,
             status := (if status row = ''PLANNED'' then ''BACKLOG'' else status row),
             updated_at := Some now \<rparr>
      else row)"

definition unassignTask :: "int \<Rightarrow> Task list \<Rightarrow> string \<Rightarrow> Task list \<times> Task option" where
  "unassignTask now db taskId =
     (let db' = map (unassign_row now taskId) db
      in (db', select_by_id db' taskId))"

definition rescheduleTask :: "int \<Rightarrow> Task list \<Rightarrow> string \<Rightarrow> string \<Rightarrow> Task list \<times> Task option" where
  "rescheduleTask now db taskId newDate = assignToDay now db taskId newDate"

section \<open>Example values\<close>

text \<open>A task with the columns the examples leave open set to fixed values.\<close>

definition example_task :: Task where
  "example_task =
     \<lparr> task_id = ''t1'', status = ''BACKLOG'', planned_for_date = None,
       difficulty = HARD, progress = 100, estimated_minutes = Some 60,
       actual_minutes = 45, max_minutes = None, due_date = None, updated_at = None \<rparr>"

text \<open>A value of \<^verbatim>\<open>today.getTime()\<close>, and a table of two rows.\<close>

definition example_today :: int where
  "example_today = 1700000000000"

definition example_db :: "Task list" where
  "example_db = [example_task\<lparr>task_id := ''t0'', status := ''PLANNED''\<rparr>, example_task]"

section \<open>Properties of the scoring functions\<close>

subsection \<open>Signs and rounding\<close>

lemma multiplier_pos: "0 < DIFFICULTY_MULTIPLIERS d"
  by (cases d) simp_all

lemma raw_basePoints_nonneg: "0 \<le> progress task \<Longrightarrow> 0 \<le> raw_basePoints task"
  using multiplier_pos [of "difficulty task"] by (simp add: raw_basePoints_def)

lemma raw_basePoints_zero_iff: "raw_basePoints task = 0 \<longleftrightarrow> progress task = 0"
  using multiplier_pos [of "difficulty task"] by (simp add: raw_basePoints_def)

lemma raw_efficiencyBonus_nonneg: "0 \<le> progress task \<Longrightarrow> 0 \<le> raw_efficiencyBonus task"
  using raw_basePoints_nonneg [of task] by (simp add: raw_efficiencyBonus_def)

lemma raw_focusBonus_nonneg: "0 \<le> progress task \<Longrightarrow> 0 \<le> raw_focusBonus task ctx"
  using raw_basePoints_nonneg [of task] by (simp add: raw_focusBonus_def)

lemma raw_basePoints_ge_half:
  assumes "50 \<le> progress task"
  shows "1 / 2 \<le> raw_basePoints task"
proof -
  have m: "1 \<le> DIFFICULTY_MULTIPLIERS (difficulty task)"
    by (cases "difficulty task") simp_all
  have p: "1 / 2 \<le> real_of_int (progress task) / 100"
    using assms by simp
  have "1 / 2 \<le> 1 * (real_of_int (progress task) / 100)"
    using p by simp
  also have "\<dots> \<le> DIFFICULTY_MULTIPLIERS (difficulty task) * (real_of_int (progress task) / 100)"
    using m p by (intro mult_right_mono) simp_all
  finally show ?thesis by (simp add: raw_basePoints_def)
qed

lemma totalPoints_eq:
  "totalPoints (calculateTaskScore task context) =
     Math_round (raw_basePoints task + raw_efficiencyBonus task + raw_focusBonus task context)"
  by (simp add: calculateTaskScore_def Let_def)

lemma Math_round_nonneg: "0 \<le> x \<Longrightarrow> 0 \<le> Math_round x"
  by (simp add: Math_round_def)

lemma Math_round_zero_iff: "0 \<le> x \<Longrightarrow> Math_round x = 0 \<longleftrightarrow> x < 1 / 2"
  unfolding Math_round_def by (auto simp add: floor_eq_iff)

text \<open>
  C1, as the spec states it: for integer progress in \<open>[0, 100]\<close>, \<open>totalPoints \<ge> 0\<close>, and
  \<open>totalPoints = 0\<close> if and only if \<open>progress = 0\<close>. The second half fails: a TRIVIAL task
  at progress 10 has the unrounded sum \<open>0.1\<close>, which \<open>Math.round\<close> takes to \<open>0\<close>.
\<close>

theorem C1_counterexample:
  "0 \<le> progress (example_task\<lparr>difficulty := TRIVIAL, progress := 10\<rparr>)
   \<and> progress (example_task\<lparr>difficulty := TRIVIAL, progress := 10\<rparr>) \<le> 100
   \<and> totalPoints (calculateTaskScore (example_task\<lparr>difficulty := TRIVIAL, progress := 10\<rparr>)
        \<lparr> taskTypesWorkedToday = 0 \<rparr>) = 0
   \<and> progress (example_task\<lparr>difficulty := TRIVIAL, progress := 10\<rparr>) \<noteq> 0
   \<and> \<not> (totalPoints (calculateTaskScore (example_task\<lparr>difficulty := TRIVIAL, progress := 10\<rparr>)
          \<lparr> taskTypesWorkedToday = 0 \<rparr>) = 0
        \<longleftrightarrow> progress (example_task\<lparr>difficulty := TRIVIAL, progress := 10\<rparr>) = 0)"
  by (simp add: calculateTaskScore_def raw_basePoints_def raw_efficiencyBonus_def
      raw_focusBonus_def under_estimate_def example_task_def Math_round_def)

text \<open>
  C1, amended: for every task with \<open>progress \<ge> 0\<close> and every context, \<open>totalPoints \<ge> 0\<close>;
  \<open>totalPoints = 0\<close> whenever \<open>progress = 0\<close>; and \<open>totalPoints = 0\<close> exactly when the
  unrounded sum \<open>basePoints + efficiencyBonus + focusBonus\<close> is below \<open>0.5\<close>, which needs
  \<open>progress < 50\<close>.
\<close>

theorem C1_total_points_sign:
  assumes "0 \<le> progress task"
  shows "0 \<le> totalPoints (calculateTaskScore task context)
    \<and> (progress task = 0 \<longrightarrow> totalPoints (calculateTaskScore task context) = 0)
    \<and> (totalPoints (calculateTaskScore task context) = 0 \<longleftrightarrow>
         raw_basePoints task + raw_efficiencyBonus task + raw_focusBonus task context < 1 / 2)
    \<and> (totalPoints (calculateTaskScore task context) = 0 \<longrightarrow> progress task < 50)"
proof -
  let ?s = "raw_basePoints task + raw_efficiencyBonus task + raw_focusBonus task context"
  have s0: "0 \<le> ?s"
    using raw_basePoints_nonneg [OF assms] raw_efficiencyBonus_nonneg [OF assms]
      raw_focusBonus_nonneg [OF assms, of "context"]
    by simp
  have a: "0 \<le> Math_round ?s" by (rule Math_round_nonneg [OF s0])
  have c: "Math_round ?s = 0 \<longleftrightarrow> ?s < 1 / 2" by (rule Math_round_zero_iff [OF s0])
  have b: "progress task = 0 \<Longrightarrow> ?s < 1 / 2"
    by (simp add: raw_basePoints_def raw_efficiencyBonus_def raw_focusBonus_def)
  have d: "?s < 1 / 2 \<Longrightarrow> progress task < 50"
  proof (rule ccontr)
    assume lt: "?s < 1 / 2" and "\<not> progress task < 50"
    then have "1 / 2 \<le> raw_basePoints task" using raw_basePoints_ge_half by simp
    with raw_efficiencyBonus_nonneg [OF assms] raw_focusBonus_nonneg [OF assms, of "context"] lt
    show False by simp
  qed
  show ?thesis unfolding totalPoints_eq using a b c d by blast
qed

theorem C1_witness:
  "0 \<le> totalPoints (calculateTaskScore example_task \<lparr> taskTypesWorkedToday = 3 \<rparr>)
   \<and> totalPoints (calculateTaskScore example_task \<lparr> taskTypesWorkedToday = 3 \<rparr>) \<noteq> 0
   \<and> \<not> raw_basePoints example_task + raw_efficiencyBonus example_task
         + raw_focusBonus example_task \<lparr> taskTypesWorkedToday = 3 \<rparr> < 1 / 2"
proof -
  have h: "0 \<le> progress example_task" by (simp add: example_task_def)
  have s: "\<not> raw_basePoints example_task + raw_efficiencyBonus example_task
         + raw_focusBonus example_task \<lparr> taskTypesWorkedToday = 3 \<rparr> < 1 / 2"
    by (simp add: raw_basePoints_def raw_efficiencyBonus_def
      raw_focusBonus_def under_estimate_def example_task_def)
  show ?thesis
    using C1_total_points_sign [OF h, of "\<lparr> taskTypesWorkedToday = 3 \<rparr>"] s by blast
qed

text \<open>
  C2. For the task \<open>{difficulty: HARD, progress: 100, estimatedMinutes: 60, actualMinutes: 45}\<close>
  and the context \<open>{taskTypesWorkedToday: 3}\<close>, \<open>calculateTaskScore\<close> returns
  \<open>basePoints = 5.0\<close>, \<open>efficiencyBonus = 1.0\<close>, \<open>focusBonus = 0.5\<close> and
  \<open>totalPoints = 7\<close>: the total is \<open>Math.round\<close> of the unrounded sum \<open>6.5\<close>, a tie, which
  rounds up.
\<close>

theorem C2_example_score:
  "calculateTaskScore example_task \<lparr> taskTypesWorkedToday = 3 \<rparr> =
     \<lparr> basePoints = 5, efficiencyBonus = 1, focusBonus = 0.5, totalPoints = 7 \<rparr>
   \<and> raw_basePoints example_task + raw_efficiencyBonus example_task
       + raw_focusBonus example_task \<lparr> taskTypesWorkedToday = 3 \<rparr> = 6.5
   \<and> Math_round 6.5 = 7"
  by (simp add: calculateTaskScore_def raw_basePoints_def raw_efficiencyBonus_def
      raw_focusBonus_def under_estimate_def example_task_def Math_round_def)

subsection \<open>Efficiency\<close>

text \<open>
  C3, as the spec states it: \<open>calculateEfficiency\<close> returns \<open>1.0\<close> when \<open>estimatedMinutes\<close>
  is absent or \<open>actualMinutes = 0\<close>, and \<open>estimatedMinutes / actualMinutes\<close> in every other
  case, the estimate \<open>0\<close> included. The guard is \<^verbatim>\<open>!task.estimated_minutes\<close>, which an
  estimate of \<open>0\<close> passes as \<open>null\<close> does: with the estimate \<open>0\<close> and \<open>30\<close> actual minutes
  the function returns \<open>1\<close>, not \<open>0 / 30 = 0\<close>.
\<close>

theorem C3_counterexample:
  "estimated_minutes (example_task\<lparr>estimated_minutes := Some 0, actual_minutes := 30\<rparr>) = Some 0
   \<and> actual_minutes (example_task\<lparr>estimated_minutes := Some 0, actual_minutes := 30\<rparr>) = 30
   \<and> calculateEfficiency (example_task\<lparr>estimated_minutes := Some 0, actual_minutes := 30\<rparr>) = 1
   \<and> calculateEfficiency (example_task\<lparr>estimated_minutes := Some 0, actual_minutes := 30\<rparr>)
       \<noteq> real_of_int 0 / real_of_int 30"
  by (simp add: calculateEfficiency_def example_task_def)

text \<open>
  C3, amended: \<open>calculateEfficiency\<close> returns \<open>1.0\<close> when \<open>estimatedMinutes\<close> is absent or
  \<open>0\<close>, or \<open>actualMinutes = 0\<close>, and \<open>estimatedMinutes / actualMinutes\<close> in every other case.
\<close>

theorem C3_efficiency_cases:
  "(estimated_minutes task = None \<or> estimated_minutes task = Some 0 \<or> actual_minutes task = 0
      \<longrightarrow> calculateEfficiency task = 1)
   \<and> (\<forall>e. estimated_minutes task = Some e \<and> e \<noteq> 0 \<and> actual_minutes task \<noteq> 0
      \<longrightarrow> calculateEfficiency task = real_of_int e / real_of_int (actual_minutes task))"
  by (auto simp add: calculateEfficiency_def)

theorem C3_witness:
  "calculateEfficiency (example_task\<lparr>estimated_minutes := None\<rparr>) = 1
   \<and> calculateEfficiency (example_task\<lparr>actual_minutes := 0\<rparr>) = 1
   \<and> calculateEfficiency (example_task\<lparr>estimated_minutes := Some 0\<rparr>) = 1
   \<and> calculateEfficiency example_task = 60 / 45"
  using C3_efficiency_cases [of "example_task\<lparr>estimated_minutes := None\<rparr>"]
        C3_efficiency_cases [of "example_task\<lparr>actual_minutes := 0\<rparr>"]
        C3_efficiency_cases [of "example_task\<lparr>estimated_minutes := Some 0\<rparr>"]
        C3_efficiency_cases [of example_task]
  by (simp add: example_task_def)

lemma display_round_multiplier:
  "real_of_int (Math_round (DIFFICULTY_MULTIPLIERS d * 10)) / 10 = DIFFICULTY_MULTIPLIERS d"
  "real_of_int (Math_round (DIFFICULTY_MULTIPLIERS d * 0.2 * 10)) / 10 = DIFFICULTY_MULTIPLIERS d * 0.2"
  by (cases d; simp add: Math_round_def)+

lemma under_estimate_iff:
  "0 \<le> actual_minutes task \<Longrightarrow>
   under_estimate task \<longleftrightarrow>
     progress task = 100 \<and> (\<exists>e. estimated_minutes task = Some e \<and> actual_minutes task < e)"
  by (cases "estimated_minutes task") (auto simp add: under_estimate_def)

lemma efficiencyBonus_returned:
  "efficiencyBonus (calculateTaskScore task ctx) =
     (if under_estimate task then basePoints (calculateTaskScore task ctx) * 0.2 else 0)"
proof (cases "under_estimate task")
  case True
  then have "progress task = 100" by (simp add: under_estimate_def)
  then have b: "raw_basePoints task = DIFFICULTY_MULTIPLIERS (difficulty task)"
    by (simp add: raw_basePoints_def)
  show ?thesis
    using True display_round_multiplier [of "difficulty task"]
    by (simp add: calculateTaskScore_def Let_def raw_efficiencyBonus_def b)
next
  case False
  then show ?thesis
    by (simp add: calculateTaskScore_def Let_def raw_efficiencyBonus_def Math_round_def)
qed

lemma not_under_estimate_update:
  "estimated_minutes task = Some e \<Longrightarrow> e \<le> a \<Longrightarrow> \<not> under_estimate (task\<lparr>actual_minutes := a\<rparr>)"
  by (simp add: under_estimate_def)

text \<open>
  C5. For every task with \<open>actualMinutes \<ge> 0\<close> and every context, the efficiency bonus is
  \<open>basePoints * 0.2\<close> when \<open>progress = 100\<close>, \<open>estimatedMinutes\<close> is present and
  \<open>actualMinutes < estimatedMinutes\<close>, and \<open>0\<close> otherwise. This holds of the fields of the
  returned breakdown (each rounded to one decimal) and of the unrounded local variables; where
  the base is not \<open>0\<close> the bonus equals \<open>basePoints * 0.2\<close> only under that condition. Raising
  \<open>actualMinutes\<close> alone to the estimate or beyond leaves the bonus \<open>0\<close>.
\<close>

theorem C5_efficiency_bonus:
  assumes "0 \<le> actual_minutes task"
  shows "efficiencyBonus (calculateTaskScore task ctx) =
      (if progress task = 100 \<and> (\<exists>e. estimated_minutes task = Some e \<and> actual_minutes task < e)
       then basePoints (calculateTaskScore task ctx) * 0.2 else 0)
    \<and> raw_efficiencyBonus task =
      (if progress task = 100 \<and> (\<exists>e. estimated_minutes task = Some e \<and> actual_minutes task < e)
       then raw_basePoints task * 0.2 else 0)
    \<and> (basePoints (calculateTaskScore task ctx) \<noteq> 0 \<longrightarrow>
         (efficiencyBonus (calculateTaskScore task ctx) = basePoints (calculateTaskScore task ctx) * 0.2
          \<longleftrightarrow> progress task = 100
              \<and> (\<exists>e. estimated_minutes task = Some e \<and> actual_minutes task < e)))
    \<and> (\<forall>e a. estimated_minutes task = Some e \<and> e \<le> a \<longrightarrow>
          efficiencyBonus (calculateTaskScore (task\<lparr>actual_minutes := a\<rparr>) ctx) = 0)"
proof -
  have 1: "efficiencyBonus (calculateTaskScore task ctx) =
      (if progress task = 100 \<and> (\<exists>e. estimated_minutes task = Some e \<and> actual_minutes task < e)
       then basePoints (calculateTaskScore task ctx) * 0.2 else 0)"
    unfolding efficiencyBonus_returned under_estimate_iff [OF assms] ..
  have 2: "raw_efficiencyBonus task =
      (if progress task = 100 \<and> (\<exists>e. estimated_minutes task = Some e \<and> actual_minutes task < e)
       then raw_basePoints task * 0.2 else 0)"
    unfolding raw_efficiencyBonus_def under_estimate_iff [OF assms] ..
  have 3: "efficiencyBonus (calculateTaskScore (task\<lparr>actual_minutes := a\<rparr>) ctx) = 0"
    if "estimated_minutes task = Some e" "e \<le> a" for e a
    using not_under_estimate_update [OF that] by (simp add: efficiencyBonus_returned)
  have 4: "efficiencyBonus (calculateTaskScore task ctx) = basePoints (calculateTaskScore task ctx) * 0.2
      \<longleftrightarrow> progress task = 100
          \<and> (\<exists>e. estimated_minutes task = Some e \<and> actual_minutes task < e)"
    if "basePoints (calculateTaskScore task ctx) \<noteq> 0"
    using that unfolding 1 by simp
  show ?thesis using 1 2 3 4 by blast
qed

theorem C5_witness:
  "efficiencyBonus (calculateTaskScore example_task \<lparr> taskTypesWorkedToday = 3 \<rparr>) = 1
   \<and> raw_efficiencyBonus example_task = 1
   \<and> efficiencyBonus (calculateTaskScore (example_task\<lparr>actual_minutes := 60\<rparr>)
        \<lparr> taskTypesWorkedToday = 3 \<rparr>) = 0"
proof -
  have h: "0 \<le> actual_minutes example_task" by (simp add: example_task_def)
  have e: "estimated_minutes example_task = Some 60 \<and> (60::int) \<le> 60"
    by (simp add: example_task_def)
  have b: "basePoints (calculateTaskScore example_task \<lparr> taskTypesWorkedToday = 3 \<rparr>) = 5"
    "raw_basePoints example_task = 5"
    by (simp_all add: calculateTaskScore_def Let_def raw_basePoints_def example_task_def
        Math_round_def)
  have c: "progress example_task = 100 \<and>
     (\<exists>e. estimated_minutes example_task = Some e \<and> actual_minutes example_task < e)"
    by (simp add: example_task_def)
  show ?thesis
    using C5_efficiency_bonus [OF h, of "\<lparr> taskTypesWorkedToday = 3 \<rparr>"] e b c by simp
qed


subsection \<open>Daily score and trend\<close>

lemma foldl_add_totalPoints:
  "foldl (\<lambda>total task. total + f task) a xs = a + sum_list (map f xs)"
  for a :: int
  by (induction xs arbitrary: a) simp_all

lemma calculateDailyScore_sum:
  "calculateDailyScore tasks ctx =
     sum_list (map (\<lambda>t. totalPoints (calculateTaskScore t ctx)) tasks)"
  by (simp add: calculateDailyScore_def foldl_add_totalPoints)

text \<open>
  C7. \<open>calculateDailyScore([], ctx) = 0\<close>; the daily score is the sum of
  \<open>calculateTaskScore(t, ctx).totalPoints\<close> over the list, and it is the same on every
  permutation of the list (two lists with the same multiset of tasks).
\<close>

theorem C7_daily_score:
  "calculateDailyScore [] ctx = 0
   \<and> calculateDailyScore tasks ctx =
       sum_list (map (\<lambda>t. totalPoints (calculateTaskScore t ctx)) tasks)
   \<and> (mset tasks = mset tasks' \<longrightarrow> calculateDailyScore tasks ctx = calculateDailyScore tasks' ctx)"
proof -
  have "calculateDailyScore tasks ctx = calculateDailyScore tasks' ctx"
    if "mset tasks = mset tasks'"
  proof -
    have "mset (map (\<lambda>t. totalPoints (calculateTaskScore t ctx)) tasks) =
          mset (map (\<lambda>t. totalPoints (calculateTaskScore t ctx)) tasks')"
      by (simp only: mset_map that)
    then show ?thesis
      unfolding calculateDailyScore_sum by (metis sum_mset_sum_list)
  qed
  then show ?thesis
    by (simp add: calculateDailyScore_sum)
qed

theorem C7_witness:
  "calculateDailyScore [] \<lparr> taskTypesWorkedToday = 3 \<rparr> = 0
   \<and> calculateDailyScore [example_task, example_task\<lparr>difficulty := EASY\<rparr>]
        \<lparr> taskTypesWorkedToday = 3 \<rparr> = 10
   \<and> calculateDailyScore [example_task\<lparr>difficulty := EASY\<rparr>, example_task]
        \<lparr> taskTypesWorkedToday = 3 \<rparr> = 10"
proof -
  have m: "mset [example_task, example_task\<lparr>difficulty := EASY\<rparr>] =
           mset [example_task\<lparr>difficulty := EASY\<rparr>, example_task]"
    by (simp add: add.commute)
  have v: "sum_list (map (\<lambda>t. totalPoints (calculateTaskScore t \<lparr> taskTypesWorkedToday = 3 \<rparr>))
             [example_task, example_task\<lparr>difficulty := EASY\<rparr>]) = 10"
    by (simp add: calculateTaskScore_def raw_basePoints_def raw_efficiencyBonus_def
      raw_focusBonus_def under_estimate_def example_task_def Math_round_def)
  show ?thesis
    using C7_daily_score [of "\<lparr> taskTypesWorkedToday = 3 \<rparr>"
        "[example_task, example_task\<lparr>difficulty := EASY\<rparr>]"
        "[example_task\<lparr>difficulty := EASY\<rparr>, example_task]"] m v
    by simp
qed

text \<open>
  C9. \<open>calculateTrend(x, 0) = 1.0\<close> for every \<open>x\<close>, and for every \<open>averageScore \<noteq> 0\<close>,
  \<open>calculateTrend(todayScore, averageScore) = todayScore / averageScore\<close>.
\<close>

theorem C9_trend:
  "calculateTrend todayScore 0 = 1
   \<and> (averageScore \<noteq> 0 \<longrightarrow> calculateTrend todayScore averageScore = todayScore / averageScore)"
  by (simp add: calculateTrend_def)

theorem C9_witness:
  "calculateTrend 12 0 = 1 \<and> (8::real) \<noteq> 0 \<and> calculateTrend 12 8 = 12 / 8"
  using C9_trend [of 12 8] by simp


subsection \<open>Trend label\<close>

lemma number_to_string_nonneg: "0 \<le> i \<Longrightarrow> number_to_string i = nat_to_string (nat i)"
  by (simp add: number_to_string_def)

text \<open>
  C6. With \<open>percentage = Math.round((trend - 1) * 100)\<close>, \<open>getTrendLabel\<close> falls into exactly
  one of five bands: \<open>percentage > 20\<close> gives the above-average message with "great focus
  today!", \<open>0 < percentage \<le> 20\<close> the plain above-average message, \<open>percentage = 0\<close> "Right on
  your average", \<open>-20 < percentage < 0\<close> the plain below-average message, and
  \<open>percentage \<le> -20\<close> the below-average message with "take it easy". The five conditions
  are disjoint and cover every integer, which is what first-match-wins comes to; the number
  written is \<open>percentage\<close>, and its absolute value in the two below-average messages.
\<close>

theorem C6_trend_label:
  "(let percentage = Math_round ((trend - 1) * 100) in
      (20 < percentage \<longrightarrow>
         getTrendLabel trend =
           nat_to_string (nat percentage) @ ''% above your average'' @ em_dash @ ''great focus today!'')
    \<and> (0 < percentage \<and> percentage \<le> 20 \<longrightarrow>
         getTrendLabel trend = nat_to_string (nat percentage) @ ''% above your average'')
    \<and> (percentage = 0 \<longrightarrow> getTrendLabel trend = ''Right on your average'')
    \<and> (- 20 < percentage \<and> percentage < 0 \<longrightarrow>
         getTrendLabel trend = nat_to_string (nat (- percentage)) @ ''% below your average'')
    \<and> (percentage \<le> - 20 \<longrightarrow>
         getTrendLabel trend =
           nat_to_string (nat (- percentage)) @ ''% below your average'' @ em_dash @ ''take it easy''))"
  by (simp add: getTrendLabel_def Let_def number_to_string_nonneg)

theorem C6_witness:
  "getTrendLabel 1.25 = ''25% above your average'' @ em_dash @ ''great focus today!''
   \<and> getTrendLabel 1.2 = ''20% above your average''
   \<and> getTrendLabel 1 = ''Right on your average''
   \<and> getTrendLabel 0.9 = ''10% below your average''
   \<and> getTrendLabel 0.8 = ''20% below your average'' @ em_dash @ ''take it easy''"
proof -
  have p: "Math_round ((1.25 - 1) * 100) = 25" "Math_round ((1.2 - 1) * 100) = 20"
    "Math_round ((1 - 1) * 100) = 0" "Math_round ((0.9 - 1) * 100) = - 10"
    "Math_round ((0.8 - 1) * 100) = - 20"
    by (simp_all add: Math_round_def)
  have s: "nat_to_string 25 = ''25''" "nat_to_string 20 = ''20''" "nat_to_string 10 = ''10''"
    by (simp_all add: nat_to_string.simps)
  show ?thesis
    using C6_trend_label [of "1.25"] C6_trend_label [of "1.2"] C6_trend_label [of 1]
      C6_trend_label [of "0.9"] C6_trend_label [of "0.8"]
    unfolding Let_def p by (simp add: s)
qed


text \<open>The bands as thresholds on the trend itself.\<close>

lemma percentage_thresholds:
  "20 < Math_round ((trend - 1) * 100) \<longleftrightarrow> 1.205 \<le> trend"
  "0 < Math_round ((trend - 1) * 100) \<longleftrightarrow> 1.005 \<le> trend"
  "Math_round ((trend - 1) * 100) = 0 \<longleftrightarrow> 0.995 \<le> trend \<and> trend < 1.005"
  "- 20 < Math_round ((trend - 1) * 100) \<longleftrightarrow> 0.805 \<le> trend"
  unfolding Math_round_def
  by (simp_all add: less_floor_iff floor_eq_iff algebra_simps) 


section \<open>Properties of the planning functions\<close>

subsection \<open>Assigning and unassigning\<close>

lemma select_by_id_map:
  assumes "\<And>row. task_id (f row) = task_id row"
  shows "select_by_id (map f db) taskId = map_option f (select_by_id db taskId)"
proof -
  have "filter (\<lambda>row. task_id row = taskId) (map f db) =
        map f (filter (\<lambda>row. task_id row = taskId) db)"
    by (simp add: filter_map o_def assms)
  then show ?thesis
    by (simp add: select_by_id_def split: list.splits)
qed

lemma select_by_id_Some_id: "select_by_id db taskId = Some task \<Longrightarrow> task_id task = taskId"
proof -
  assume a: "select_by_id db taskId = Some task"
  then obtain rest where "filter (\<lambda>row. task_id row = taskId) db = task # rest"
    by (auto simp add: select_by_id_def split: list.splits)
  then have "task \<in> set (filter (\<lambda>row. task_id row = taskId) db)" by simp
  then show ?thesis by simp
qed

lemma assignToDay_eq:
  "assignToDay now db taskId date =
     (map (assign_row now taskId date) db,
      map_option (assign_row now taskId date) (select_by_id db taskId))"
proof -
  have "select_by_id (map (assign_row now taskId date) db) taskId =
        map_option (assign_row now taskId date) (select_by_id db taskId)"
    by (rule select_by_id_map) (simp add: assign_row_def)
  then show ?thesis
    by (simp add: assignToDay_def Let_def)
qed

lemma unassignTask_eq:
  "unassignTask now db taskId =
     (map (unassign_row now taskId) db,
      map_option (unassign_row now taskId) (select_by_id db taskId))"
proof -
  have "select_by_id (map (unassign_row now taskId) db) taskId =
        map_option (unassign_row now taskId) (select_by_id db taskId)"
    by (rule select_by_id_map) (simp add: unassign_row_def)
  then show ?thesis
    by (simp add: unassignTask_def Let_def)
qed

lemma round_trip_row:
  assumes "task_id row = taskId" and "status row = ''BACKLOG''"
  shows "unassign_row now' taskId (assign_row now taskId date row) =
           row\<lparr> planned_for_date := None, updated_at := Some now' \<rparr>"
  using assms by (simp add: assign_row_def unassign_row_def)

text \<open>
  C8. For every task the table holds with status \<^verbatim>\<open>BACKLOG\<close> and every date,
  \<open>assignToDay(taskId, date)\<close> followed by \<open>unassignTask(taskId)\<close> hands back, and leaves in
  the table, the task with status \<^verbatim>\<open>BACKLOG\<close> and no \<open>plannedForDate\<close>: it is the task as it
  was, but for \<open>plannedForDate\<close> cleared and \<open>updatedAt\<close> refreshed.
\<close>

theorem C8_assign_unassign_round_trip:
  assumes "select_by_id db taskId = Some task" and "status task = ''BACKLOG''"
  shows "\<exists>task'.
      snd (unassignTask now' (fst (assignToDay now db taskId date)) taskId) = Some task'
    \<and> select_by_id (fst (unassignTask now' (fst (assignToDay now db taskId date)) taskId)) taskId
        = Some task'
    \<and> status task' = ''BACKLOG'' \<and> planned_for_date task' = None
    \<and> task' = task\<lparr> planned_for_date := None, updated_at := Some now' \<rparr>"
proof -
  have i: "task_id task = taskId" by (rule select_by_id_Some_id [OF assms(1)])
  have a: "select_by_id (map (assign_row now taskId date) db) taskId =
           Some (assign_row now taskId date task)"
    using assms(1) by (subst select_by_id_map) (simp_all add: assign_row_def)
  have u: "select_by_id (map (unassign_row now' taskId) (map (assign_row now taskId date) db)) taskId =
           Some (unassign_row now' taskId (assign_row now taskId date task))"
    using a by (subst select_by_id_map) (simp_all add: unassign_row_def)
  show ?thesis
    using a u assms(2) i
    by (simp add: assignToDay_eq unassignTask_eq round_trip_row)
qed

theorem C8_witness:
  "snd (unassignTask 2000 (fst (assignToDay 1000 example_db ''t1'' ''2026-01-15'')) ''t1'') =
     Some (example_task\<lparr> planned_for_date := None, updated_at := Some 2000 \<rparr>)
   \<and> status example_task = ''BACKLOG''"
proof -
  have s: "select_by_id example_db ''t1'' = Some example_task"
    by (simp add: select_by_id_def example_db_def example_task_def)
  have b: "status example_task = ''BACKLOG''" by (simp add: example_task_def)
  show ?thesis
    using C8_assign_unassign_round_trip [OF s b, of 2000 1000 "''2026-01-15''"] b
    by auto
qed

subsection \<open>Priority score\<close>

text \<open>The four blocks add to \<^verbatim>\<open>score\<close> independently of one another.\<close>

lemma calculatePriority_bands:
  "calculatePriority task today =
     due_band task today + completion_band task + time_band task + neglect_band task today"
  by (simp add: calculatePriority_def due_band_def completion_band_def time_band_def
      neglect_band_def Let_def split: option.splits)

lemma due_band_cases: "due_band task today \<in> {0, 10, 25, 35, 40}"
  by (simp add: due_band_def Let_def split: option.splits)

lemma completion_band_cases: "completion_band task \<in> {0, 15, 30}"
  by (simp add: completion_band_def)

lemma time_band_cases: "time_band task \<in> {0, 10, 20}"
  by (simp add: time_band_def Let_def)

lemma neglect_band_cases: "neglect_band task today \<in> {0, 5, 10}"
  by (simp add: neglect_band_def Let_def split: option.splits)

text \<open>
  C4. For a task due exactly one day after \<open>today\<close>, with progress \<open>85\<close>, no time tracking
  that counts (\<open>maxMinutes\<close> absent or \<open>0\<close>, or \<open>actualMinutes = 0\<close>) and \<open>updatedAt\<close> ten days
  before \<open>today\<close>, the four bands give \<open>35\<close>, \<open>30\<close>, \<open>0\<close> and \<open>10\<close>, and
  \<open>calculatePriority\<close> returns their sum \<open>75\<close>.
\<close>

theorem C4_priority_example:
  assumes "due_date task = Some (today + MS_PER_DAY)"
    and "progress task = 85"
    and "\<not> truthy (max_minutes task) \<or> actual_minutes task = 0"
    and "updated_at task = Some (today - 10 * MS_PER_DAY)"
  shows "due_band task today = 35 \<and> completion_band task = 30 \<and> time_band task = 0
    \<and> neglect_band task today = 10 \<and> calculatePriority task today = 35 + 30 + 0 + 10
    \<and> calculatePriority task today = 75"
proof -
  have d: "due_band task today = 35"
    using assms(1) by (simp add: due_band_def Math_ceil_def MS_PER_DAY_def)
  have c: "completion_band task = 30"
    using assms(2) by (simp add: completion_band_def)
  have t: "time_band task = 0"
    using assms(3) by (auto simp add: time_band_def)
  have n: "neglect_band task today = 10"
    using assms(4) by (simp add: neglect_band_def Math_ceil_def MS_PER_DAY_def)
  show ?thesis
    unfolding calculatePriority_bands d c t n by simp
qed

theorem C4_witness:
  "calculatePriority
     (example_task\<lparr>progress := 85, due_date := Some (example_today + MS_PER_DAY),
        updated_at := Some (example_today - 10 * MS_PER_DAY)\<rparr>) example_today = 75"
proof -
  let ?t = "example_task\<lparr>progress := 85, due_date := Some (example_today + MS_PER_DAY),
        updated_at := Some (example_today - 10 * MS_PER_DAY)\<rparr>"
  have "due_date ?t = Some (example_today + MS_PER_DAY)" "progress ?t = 85"
    "\<not> truthy (max_minutes ?t) \<or> actual_minutes ?t = 0"
    "updated_at ?t = Some (example_today - 10 * MS_PER_DAY)"
    by (simp_all add: example_task_def)
  from C4_priority_example [OF this] show ?thesis by simp
qed

text \<open>
  C10. For every task and every date, \<open>calculatePriority\<close> returns a multiple of \<open>5\<close> between
  \<open>0\<close> and \<open>100\<close>: it is the sum of four bands, the due-date band one of \<open>0, 10, 25, 35, 40\<close>,
  the completion band one of \<open>0, 15, 30\<close>, the time band one of \<open>0, 10, 20\<close> and the neglect
  band one of \<open>0, 5, 10\<close>.
\<close>

theorem C10_priority_range:
  "5 dvd calculatePriority task today \<and> 0 \<le> calculatePriority task today
   \<and> calculatePriority task today \<le> 100
   \<and> due_band task today \<in> {0, 10, 25, 35, 40} \<and> completion_band task \<in> {0, 15, 30}
   \<and> time_band task \<in> {0, 10, 20} \<and> neglect_band task today \<in> {0, 5, 10}
   \<and> calculatePriority task today =
       due_band task today + completion_band task + time_band task + neglect_band task today"
  using due_band_cases[of task today] completion_band_cases[of task]
        time_band_cases[of task] neglect_band_cases[of task today]
  unfolding calculatePriority_bands
  by auto

theorem C10_witness:
  "calculatePriority
     (example_task\<lparr>max_minutes := Some 50, due_date := Some (example_today - 5),
        updated_at := Some (example_today - 10 * MS_PER_DAY)\<rparr>) example_today = 100
   \<and> calculatePriority (example_task\<lparr>progress := 0\<rparr>) example_today = 0"
  using C10_priority_range [of "example_task\<lparr>max_minutes := Some 50, due_date := Some (example_today - 5),
        updated_at := Some (example_today - 10 * MS_PER_DAY)\<rparr>" example_today]
    C10_priority_range [of "example_task\<lparr>progress := 0\<rparr>" example_today]
  by (simp add: example_task_def example_today_def MS_PER_DAY_def due_band_def completion_band_def
      time_band_def neglect_band_def Math_ceil_def)

end
